theory Spec2Isabelle
  imports Main "HOL-Library.Multiset"
begin

text \<open>
  The chat application keeps users, rooms, messages and room memberships in a
  relational database and serves them over HTTP. This theory models the schema, the
  storage layer (\<open>DatabaseStorage\<close>) and the handlers of the route layer as
  functions on an explicit database, and proves what the specification says of
  them, or else what the code does in its place.
\<close>

section \<open>The persistence schema (shared/schema.ts)\<close>

text \<open>
  A timestamp column holds a point in time, here an integer (microseconds since the
  epoch). Every \<open>timestamp\<close> column of the schema is nullable (none is declared
  \<open>notNull\<close>), so a row carries a \<open>timestamp option\<close>; \<open>None\<close> is SQL's NULL.
  Record fields are global names in HOL, so the columns that several tables share
  (\<open>id\<close>, \<open>createdAt\<close>, \<open>updatedAt\<close>, \<open>userId\<close>, \<open>roomId\<close>) carry the table's
  name where they would clash.
\<close>

type_synonym timestamp = int

record User =
  user_id :: string
  email :: "string option"
  firstName :: "string option"
  lastName :: "string option"
  profileImageUrl :: "string option"
  user_createdAt :: "timestamp option"
  user_updatedAt :: "timestamp option"

record Room =
  room_id :: int
  room_name :: string
  description :: "string option"
  createdBy :: string
  room_createdAt :: "timestamp option"
  room_updatedAt :: "timestamp option"

record Message =
  message_id :: int
  content :: string
  userId :: string
  roomId :: int
  createdAt :: "timestamp option"

record RoomMember =
  member_id :: int
  member_userId :: string
  member_roomId :: int
  joinedAt :: "timestamp option"

text \<open>
  The insert types: \<open>insertRoomSchema\<close> omits id, createdAt and updatedAt;
  \<open>insertMessageSchema\<close> omits id and createdAt. The column \<open>messages.room_id\<close> is
  declared \<open>serial\<close>, so it has a default and the insert type lets it be omitted.
\<close>

record InsertRoom =
  ins_name :: string
  ins_description :: "string option"
  ins_createdBy :: string

record InsertMessage =
  ins_content :: string
  ins_userId :: string
  ins_roomId :: "int option"

text \<open>The extended types: \<open>MessageWithUser = Message & {user: User}\<close> and
  \<open>RoomWithDetails = Room & {creator: User; memberCount?: number}\<close> (its optional
  \<open>lastMessage\<close> is never set by the storage layer).\<close>

record MessageWithUser = Message +
  user :: User


section \<open>The database\<close>

text \<open>
  A table is the list of its rows in insertion order. A \<open>serial\<close> column draws its
  default from a sequence; the field holds the last value drawn (0 before the first).
\<close>

record db =
  users :: "User list"
  rooms :: "Room list"
  messages :: "Message list"
  roomMembers :: "RoomMember list"
  rooms_id_seq :: int
  messages_id_seq :: int
  messages_room_id_seq :: int
  room_members_id_seq :: int

definition empty_db :: db where
  "empty_db = \<lparr>users = [], rooms = [], messages = [], roomMembers = [],
     rooms_id_seq = 0, messages_id_seq = 0, messages_room_id_seq = 0,
     room_members_id_seq = 0\<rparr>"

text \<open>
  One statement sent to the database runs under conditions the program does not
  control: the value of \<open>now()\<close> that fills a \<open>defaultNow()\<close> column, and whether the
  database carries the statement out at all (a lost connection, a timeout, a value
  the column refuses). Both are inputs of the model. A statement that is not carried
  out makes the \<open>await\<close> throw.
\<close>

record stmt =
  now :: timestamp
  rejects :: bool

datatype error = Rejected | UniqueViolation | InvalidRowCount

text \<open>
  \<open>db.insert(roomMembers).values({ userId, roomId }).onConflictDoNothing()\<close>. The id
  comes from the sequence. ON CONFLICT DO NOTHING skips the row when it would violate
  a unique constraint of the table; \<open>room_members\<close> declares one only, the primary
  key \<open>id\<close>.
\<close>

definition insert_roomMembers_onConflictDoNothing ::
    "timestamp \<Rightarrow> string \<Rightarrow> int \<Rightarrow> db \<Rightarrow> db" where
  "insert_roomMembers_onConflictDoNothing t uid rid d =
     (let i = room_members_id_seq d + 1;
          d1 = d\<lparr>room_members_id_seq := i\<rparr>
      in if i \<in> set (map member_id (roomMembers d)) then d1
         else d1\<lparr>roomMembers := roomMembers d @
           [\<lparr>member_id = i, member_userId = uid, member_roomId = rid,
             joinedAt = Some t\<rparr>]\<rparr>)"

text \<open>
  \<open>db.insert(rooms).values(room).returning()\<close>: the id comes from the sequence (a
  value drawn stays drawn when the insert fails), \<open>created_at\<close> and \<open>updated_at\<close>
  from \<open>now()\<close>. An id already in the table violates the primary key.
\<close>

definition insert_rooms_returning :: "stmt \<Rightarrow> InsertRoom \<Rightarrow> db \<Rightarrow> (error + Room) \<times> db" where
  "insert_rooms_returning e v d =
     (if rejects e then (Inl Rejected, d)
      else
        let i = rooms_id_seq d + 1;
            d1 = d\<lparr>rooms_id_seq := i\<rparr>;
            r = \<lparr>room_id = i, room_name = ins_name v, description = ins_description v,
                 createdBy = ins_createdBy v, room_createdAt = Some (now e),
                 room_updatedAt = Some (now e)\<rparr>
        in if i \<in> set (map room_id (rooms d)) then (Inl UniqueViolation, d1)
           else (Inr r, d1\<lparr>rooms := rooms d @ [r]\<rparr>))"

text \<open>
  \<open>db.insert(messages).values(message).returning()\<close>. A \<open>roomId\<close> left out is
  drawn from the column's own sequence.
\<close>

definition insert_messages_returning ::
    "stmt \<Rightarrow> InsertMessage \<Rightarrow> db \<Rightarrow> (error + Message) \<times> db" where
  "insert_messages_returning e v d =
     (if rejects e then (Inl Rejected, d)
      else
        let i = messages_id_seq d + 1;
            d1 = d\<lparr>messages_id_seq := i\<rparr>;
            d2 = (case ins_roomId v of
                    Some _ \<Rightarrow> d1
                  | None \<Rightarrow> d1\<lparr>messages_room_id_seq := messages_room_id_seq d1 + 1\<rparr>);
            m = \<lparr>message_id = i, content = ins_content v, userId = ins_userId v,
                 roomId = (case ins_roomId v of Some r \<Rightarrow> r
                           | None \<Rightarrow> messages_room_id_seq d2),
                 createdAt = Some (now e)\<rparr>
        in if i \<in> set (map message_id (messages d)) then (Inl UniqueViolation, d2)
           else (Inr m, d2\<lparr>messages := messages d @ [m]\<rparr>))"

subsection \<open>Queries\<close>

text \<open>An inner join pairs every row of the left table with the rows of the right
  table that satisfy the join condition.\<close>

definition inner_join :: "'a list \<Rightarrow> 'b list \<Rightarrow> ('a \<Rightarrow> 'b \<Rightarrow> bool) \<Rightarrow> ('a \<times> 'b) list" where
  "inner_join xs ys cond = concat (map (\<lambda>x. map (Pair x) (filter (cond x) ys)) xs)"




fun sql_gt :: "timestamp option \<Rightarrow> timestamp \<Rightarrow> bool" where
  "sql_gt None t = False"
| "sql_gt (Some a) t = (a > t)"

text \<open>
  \<open>.orderBy(desc(messages.createdAt))\<close> names one sort key. SQL leaves the order of
  rows with equal keys to the database, so the sort the database performs is an
  input of the model: any function that permutes the rows it is given and returns
  them in descending key order.
\<close>

type_synonym ordering = "(Message \<times> User) list \<Rightarrow> (Message \<times> User) list"





section \<open>The storage layer (DatabaseStorage)\<close>

text \<open>
  The functions of \<open>DatabaseStorage\<close>, in the order of the source. A function that
  writes takes the conditions of each of its statements and returns its result or
  the error thrown, with the database it leaves. A function that reads is modelled
  where the database answers the query; the rows of a query without ORDER BY are
  listed in the order of the table.
\<close>



text \<open>\<open>const [room] = await db.select().from(rooms).where(eq(rooms.id, id))\<close>\<close>

definition getRoomById :: "db \<Rightarrow> int \<Rightarrow> Room option" where
  "getRoomById d i =
     (case filter (\<lambda>r. room_id r = i) (rooms d) of [] \<Rightarrow> None | room # _ \<Rightarrow> Some room)"

definition joinRoom :: "stmt \<Rightarrow> string \<Rightarrow> int \<Rightarrow> db \<Rightarrow> (error + unit) \<times> db" where
  "joinRoom e uid rid d =
     (if rejects e then (Inl Rejected, d)
      else (Inr (), insert_roomMembers_onConflictDoNothing (now e) uid rid d))"

text \<open>
  \<open>createRoom\<close> awaits two statements in turn, the insert of the room and
  \<open>this.joinRoom(room.createdBy, newRoom.id)\<close>; each runs under conditions of its
  own. An \<open>await\<close> that throws ends the function there.
\<close>

definition createRoom :: "stmt \<Rightarrow> stmt \<Rightarrow> InsertRoom \<Rightarrow> db \<Rightarrow> (error + Room) \<times> db" where
  "createRoom e1 e2 room d =
     (case insert_rooms_returning e1 room d of
        (Inl err, d1) \<Rightarrow> (Inl err, d1)
      | (Inr newRoom, d1) \<Rightarrow>
          (case joinRoom e2 (ins_createdBy room) (room_id newRoom) d1 of
             (Inl err, d2) \<Rightarrow> (Inl err, d2)
           | (Inr _, d2) \<Rightarrow> (Inr newRoom, d2)))"

definition leaveRoom :: "stmt \<Rightarrow> string \<Rightarrow> int \<Rightarrow> db \<Rightarrow> (error + unit) \<times> db" where
  "leaveRoom e uid rid d =
     (if rejects e then (Inl Rejected, d)
      else (Inr (), d\<lparr>roomMembers :=
              filter (\<lambda>m. \<not> (member_userId m = uid \<and> member_roomId m = rid))
                (roomMembers d)\<rparr>))"

text \<open>\<open>m => ({ ...m.message, user: m.user })\<close>\<close>

definition with_user :: "Message \<times> User \<Rightarrow> MessageWithUser" where
  "with_user m = Message.extend (fst m) (MessageWithUser.fields (snd m))"

text \<open>
  \<open>getMessages(roomId, limit = 50, offset = 0)\<close>. The database refuses a negative
  LIMIT or OFFSET.
\<close>

definition getMessages ::
    "ordering \<Rightarrow> db \<Rightarrow> int \<Rightarrow> int \<Rightarrow> int \<Rightarrow> error + MessageWithUser list" where
  "getMessages ord d rid limit offset =
     (if limit < 0 \<or> offset < 0 then Inl InvalidRowCount
      else
        let msgs = take (nat limit) (drop (nat offset)
              (ord (filter (\<lambda>(m, u). roomId m = rid)
                 (inner_join (messages d) (users d) (\<lambda>m u. userId m = user_id u)))))
        in Inr (rev (map with_user msgs)))"

definition createMessage :: "stmt \<Rightarrow> InsertMessage \<Rightarrow> db \<Rightarrow> (error + Message) \<times> db" where
  "createMessage e message d = insert_messages_returning e message d"

text \<open>
  \<open>getLatestMessages(roomId, since?)\<close>: \<open>since\<close> is a \<open>Date\<close> or undefined
  (\<open>None\<close>); a \<open>Date\<close> object is truthy, so \<open>if (since)\<close> tests for its presence.
\<close>

definition getLatestMessages ::
    "ordering \<Rightarrow> db \<Rightarrow> int \<Rightarrow> timestamp option \<Rightarrow> MessageWithUser list" where
  "getLatestMessages ord d rid since =
     (let query =
            (case since of
               None \<Rightarrow>
                 ord (filter (\<lambda>(m, u). roomId m = rid)
                   (inner_join (messages d) (users d) (\<lambda>m u. userId m = user_id u)))
             | Some t \<Rightarrow>
                 ord (filter (\<lambda>(m, u). roomId m = rid \<and> sql_gt (createdAt m) t)
                   (inner_join (messages d) (users d) (\<lambda>m u. userId m = user_id u))));
          msgs = take 50 query
      in rev (map with_user msgs))"

definition getRoomMembers :: "db \<Rightarrow> int \<Rightarrow> User list" where
  "getRoomMembers d rid =
     map snd (filter (\<lambda>(rm, u). member_roomId rm = rid)
       (inner_join (roomMembers d) (users d) (\<lambda>rm u. member_userId rm = user_id u)))"

text \<open>
  The writes of the storage layer, and a run of them one after the other, each on
  the database the one before left (whether it succeeded or threw). \<open>upsertUser\<close>
  inserts or updates one row of \<open>users\<close> and touches no other table; \<open>WriteUsers\<close>
  stands for it and may leave any \<open>users\<close> table at all, which covers whatever
  \<open>upsertUser\<close> does.
\<close>

datatype storage_write =
    WriteUsers "User list"
  | CreateRoom stmt stmt InsertRoom
  | JoinRoom stmt string int
  | LeaveRoom stmt string int
  | CreateMessage stmt InsertMessage

fun perform :: "storage_write \<Rightarrow> db \<Rightarrow> db" where
  "perform (WriteUsers us) d = d\<lparr>users := us\<rparr>"
| "perform (CreateRoom e1 e2 room) d = snd (createRoom e1 e2 room d)"
| "perform (JoinRoom e uid rid) d = snd (joinRoom e uid rid d)"
| "perform (LeaveRoom e uid rid) d = snd (leaveRoom e uid rid d)"
| "perform (CreateMessage e message) d = snd (createMessage e message d)"


section \<open>The route layer (server/routes.ts)\<close>

subsection \<open>\<open>parseInt\<close>\<close>

text \<open>
  \<open>parseInt(string)\<close> with no radix, after ECMA-262: leading white space is
  dropped, then a sign, then the prefix \<open>0x\<close> or \<open>0X\<close> (which makes the radix 16);
  the digits up to the first character that is not a digit of the radix are the
  number; with no digit the result is \<open>NaN\<close>. A \<open>char\<close> is a code unit below 256,
  so the white space is that of this range. The integer is kept exact (JavaScript
  rounds an integer beyond \<open>2^53\<close> to a double), and \<open>-0\<close> is \<open>0\<close>.
\<close>

datatype js_number = NaN | Num int

definition StrWhiteSpaceChar :: "char \<Rightarrow> bool" where
  "StrWhiteSpaceChar c = (of_char c \<in> {9, 10, 11, 12, 13, 32, 160 :: nat})"

definition digit_of :: "char \<Rightarrow> nat option" where
  "digit_of c =
     (let n = (of_char c :: nat)
      in if 48 \<le> n \<and> n \<le> 57 then Some (n - 48)
         else if 97 \<le> n \<and> n \<le> 122 then Some (n - 87)
         else if 65 \<le> n \<and> n \<le> 90 then Some (n - 55)
         else None)"

definition radix_digit :: "nat \<Rightarrow> char \<Rightarrow> bool" where
  "radix_digit R c = (case digit_of c of Some v \<Rightarrow> v < R | None \<Rightarrow> False)"

definition digits_value :: "nat \<Rightarrow> string \<Rightarrow> nat" where
  "digits_value R Z =
     foldl (\<lambda>acc c. acc * R + (case digit_of c of Some v \<Rightarrow> v | None \<Rightarrow> 0)) 0 Z"

definition parseInt :: "string \<Rightarrow> js_number" where
  "parseInt inputString =
     (let S = dropWhile StrWhiteSpaceChar inputString;
          sign = (if S \<noteq> [] \<and> hd S = CHR ''-'' then - 1 else 1);
          S1 = (if S \<noteq> [] \<and> (hd S = CHR ''+'' \<or> hd S = CHR ''-'') then tl S else S);
          hex = (take 2 S1 = ''0x'' \<or> take 2 S1 = ''0X'');
          R = (if hex then 16 else 10);
          S2 = (if hex then drop 2 S1 else S1);
          Z = takeWhile (radix_digit R) S2
      in if Z = [] then NaN else Num (sign * int (digits_value R Z)))"

text \<open>\<open>x || d\<close> for a number \<open>x\<close>: \<open>NaN\<close> and \<open>0\<close> are falsy.\<close>

definition or_default :: "js_number \<Rightarrow> int \<Rightarrow> int" where
  "or_default x d = (case x of NaN \<Rightarrow> d | Num n \<Rightarrow> if n = 0 then d else n)"

text \<open>A query parameter is a string or absent; \<open>parseInt\<close> turns its argument into a
  string first, and \<open>undefined\<close> into \<open>''undefined''\<close>.\<close>

definition ToString :: "string option \<Rightarrow> string" where
  "ToString v = (case v of None \<Rightarrow> ''undefined'' | Some s \<Rightarrow> s)"

subsection \<open>Requests and responses\<close>

datatype json =
    Msg string
  | MessagesJ "MessageWithUser list"
  | MessageWithUserJ MessageWithUser
  | MessageJ Message
  | UsersJ "User list"

record response =
  status :: nat
  body :: json

text \<open>A \<open>Date\<close> made from a string is a point in time or the invalid date. The
  constructor's parsing is JavaScript's and is a parameter of the routes.\<close>

datatype js_date = Date timestamp | Invalid_Date

text \<open>The calls a handler makes on \<open>storage\<close>, in order.\<close>

datatype storage_call =
    Call_getRoomById int
  | Call_joinRoom string int
  | Call_leaveRoom string int
  | Call_getMessages int int int
  | Call_getLatestMessages int js_date
  | Call_createMessage InsertMessage
  | Call_getRoomMembers int

record query =
  q_limit :: "string option"
  q_offset :: "string option"
  q_since :: "string option"

definition invalid_room_id :: response where
  "invalid_room_id = \<lparr>status = 400, body = Msg ''Invalid room ID''\<rparr>"

subsection \<open>The handlers\<close>

text \<open>
  Each handler is modelled from the point where \<open>isAuthenticated\<close> has let the
  request through: \<open>uid\<close> is \<open>req.user.claims.sub\<close>, \<open>param\<close> is
  \<open>req.params.roomId\<close>. A handler returns its response, the storage calls it made
  and the database it leaves. \<open>res.json\<close> without a status answers 200; whatever is
  thrown inside \<open>try\<close> is answered with 500.
\<close>

definition join_route ::
    "stmt \<Rightarrow> string \<Rightarrow> string \<Rightarrow> db \<Rightarrow> (response \<times> storage_call list) \<times> db" where
  "join_route e uid param d =
     (case parseInt param of
        NaN \<Rightarrow> ((invalid_room_id, []), d)
      | Num rid \<Rightarrow>
          (case getRoomById d rid of
             None \<Rightarrow> ((\<lparr>status = 404, body = Msg ''Room not found''\<rparr>,
                        [Call_getRoomById rid]), d)
           | Some room \<Rightarrow>
               (case joinRoom e uid rid d of
                  (Inl _, d1) \<Rightarrow>
                    ((\<lparr>status = 500, body = Msg ''Failed to join room''\<rparr>,
                      [Call_getRoomById rid, Call_joinRoom uid rid]), d1)
                | (Inr _, d1) \<Rightarrow>
                    ((\<lparr>status = 200, body = Msg ''Joined room successfully''\<rparr>,
                      [Call_getRoomById rid, Call_joinRoom uid rid]), d1))))"

definition leave_route ::
    "stmt \<Rightarrow> string \<Rightarrow> string \<Rightarrow> db \<Rightarrow> (response \<times> storage_call list) \<times> db" where
  "leave_route e uid param d =
     (case parseInt param of
        NaN \<Rightarrow> ((invalid_room_id, []), d)
      | Num rid \<Rightarrow>
          (case leaveRoom e uid rid d of
             (Inl _, d1) \<Rightarrow>
               ((\<lparr>status = 500, body = Msg ''Failed to leave room''\<rparr>,
                 [Call_leaveRoom uid rid]), d1)
           | (Inr _, d1) \<Rightarrow>
               ((\<lparr>status = 200, body = Msg ''Left room successfully''\<rparr>,
                 [Call_leaveRoom uid rid]), d1)))"

text \<open>
  \<open>const limit = parseInt(req.query.limit as string) || 50\<close> and
  \<open>const offset = parseInt(req.query.offset as string) || 0\<close>.
\<close>

definition route_limit :: "string option \<Rightarrow> int" where
  "route_limit v = or_default (parseInt (ToString v)) 50"

definition route_offset :: "string option \<Rightarrow> int" where
  "route_offset v = or_default (parseInt (ToString v)) 0"

text \<open>
  \<open>const since = req.query.since ? new Date(req.query.since as string) : undefined\<close>:
  the empty string is falsy. An invalid date cannot be sent to the database as a
  timestamp, and the call with it throws. The reads change nothing, so the handlers
  that only read return no database.
\<close>

definition list_messages_route ::
    "(string \<Rightarrow> js_date) \<Rightarrow> ordering \<Rightarrow> string \<Rightarrow> query \<Rightarrow> db
       \<Rightarrow> response \<times> storage_call list" where
  "list_messages_route new_Date ord param q d =
     (let limit = route_limit (q_limit q);
          offset = route_offset (q_offset q);
          since = (case q_since q of
                     None \<Rightarrow> None
                   | Some s \<Rightarrow> if s = [] then None else Some (new_Date s))
      in case parseInt param of
           NaN \<Rightarrow> (invalid_room_id, [])
         | Num rid \<Rightarrow>
             (case since of
                Some (Date t) \<Rightarrow>
                  (\<lparr>status = 200, body = MessagesJ (getLatestMessages ord d rid (Some t))\<rparr>,
                   [Call_getLatestMessages rid (Date t)])
              | Some Invalid_Date \<Rightarrow>
                  (\<lparr>status = 500, body = Msg ''Failed to fetch messages''\<rparr>,
                   [Call_getLatestMessages rid Invalid_Date])
              | None \<Rightarrow>
                  (case getMessages ord d rid limit offset of
                     Inl _ \<Rightarrow>
                       (\<lparr>status = 500, body = Msg ''Failed to fetch messages''\<rparr>,
                        [Call_getMessages rid limit offset])
                   | Inr msgs \<Rightarrow>
                       (\<lparr>status = 200, body = MessagesJ msgs\<rparr>,
                        [Call_getMessages rid limit offset]))))"

text \<open>
  The body's \<open>content\<close> is a string or not (\<open>None\<close>); \<open>insertMessageSchema.parse\<close>
  throws on anything but a string. \<open>storage.getMessages(roomId, 1)\<close> leaves the
  offset at its default 0.
\<close>

definition send_message_route ::
    "stmt \<Rightarrow> ordering \<Rightarrow> string \<Rightarrow> string \<Rightarrow> string option \<Rightarrow> db
       \<Rightarrow> (response \<times> storage_call list) \<times> db" where
  "send_message_route e ord uid param req_content d =
     (case parseInt param of
        NaN \<Rightarrow> ((invalid_room_id, []), d)
      | Num rid \<Rightarrow>
          (case req_content of
             None \<Rightarrow> ((\<lparr>status = 500, body = Msg ''Failed to send message''\<rparr>, []), d)
           | Some c \<Rightarrow>
               (let messageData = \<lparr>ins_content = c, ins_userId = uid, ins_roomId = Some rid\<rparr>
                in case createMessage e messageData d of
                     (Inl _, d1) \<Rightarrow>
                       ((\<lparr>status = 500, body = Msg ''Failed to send message''\<rparr>,
                         [Call_createMessage messageData]), d1)
                   | (Inr message, d1) \<Rightarrow>
                       (case getMessages ord d1 rid 1 0 of
                          Inl _ \<Rightarrow>
                            ((\<lparr>status = 500, body = Msg ''Failed to send message''\<rparr>,
                              [Call_createMessage messageData, Call_getMessages rid 1 0]), d1)
                        | Inr messageWithUser \<Rightarrow>
                            ((\<lparr>status = 201,
                               body = (case messageWithUser of
                                         x # _ \<Rightarrow> MessageWithUserJ x
                                       | [] \<Rightarrow> MessageJ message)\<rparr>,
                              [Call_createMessage messageData, Call_getMessages rid 1 0]),
                             d1)))))"

definition members_route :: "string \<Rightarrow> db \<Rightarrow> response \<times> storage_call list" where
  "members_route param d =
     (case parseInt param of
        NaN \<Rightarrow> (invalid_room_id, [])
      | Num rid \<Rightarrow>
          (\<lparr>status = 200, body = UsersJ (getRoomMembers d rid)\<rparr>, [Call_getRoomMembers rid]))"

section \<open>What the theorems speak of\<close>

subsection \<open>Keys and references\<close>

text \<open>
  What the schema promises of the users table, and what the data model asks of the
  messages: \<open>users.id\<close> is the primary key, and the author of every message has a
  row in \<open>users\<close>.
\<close>

definition users_pk :: "db \<Rightarrow> bool" where
  "users_pk d = distinct (map user_id (users d))"

definition authors_exist :: "db \<Rightarrow> bool" where
  "authors_exist d = list_all (\<lambda>m. userId m \<in> set (map user_id (users d))) (messages d)"


text \<open>\<open>rooms.id\<close> is the primary key of the rooms table.\<close>

definition rooms_pk :: "db \<Rightarrow> bool" where
  "rooms_pk d = distinct (map room_id (rooms d))"

text \<open>The sequence of \<open>room_members.id\<close> is ahead of every id in the table: so it
  is in every database whose ids were all drawn from the sequence.\<close>

definition members_seq_ahead :: "db \<Rightarrow> bool" where
  "members_seq_ahead d = list_all (\<lambda>m. member_id m \<le> room_members_id_seq d) (roomMembers d)"

definition rooms_insert_fails :: "stmt \<Rightarrow> db \<Rightarrow> bool" where
  "rooms_insert_fails e d = (rejects e \<or> rooms_id_seq d + 1 \<in> set (map room_id (rooms d)))"

subsection \<open>Rows and selections\<close>










text \<open>The specification's word: a string is numeric when it is a decimal numeral,
  one or more decimal digits after an optional sign, and nothing else.\<close>

definition numeric_string :: "string \<Rightarrow> bool" where
  "numeric_string s =
     (let t = (if s \<noteq> [] \<and> (hd s = CHR ''+'' \<or> hd s = CHR ''-'') then tl s else s)
      in t \<noteq> [] \<and> list_all (radix_digit 10) t)"

subsection \<open>Databases to run the code on\<close>

definition ann :: User where
  "ann = \<lparr>user_id = ''ann'', email = Some ''ann@example.org'', firstName = Some ''Ann'',
     lastName = None, profileImageUrl = None, user_createdAt = Some 1,
     user_updatedAt = Some 1\<rparr>"

definition bob :: User where
  "bob = \<lparr>user_id = ''bob'', email = None, firstName = None, lastName = None,
     profileImageUrl = None, user_createdAt = Some 2, user_updatedAt = Some 2\<rparr>"

definition two_users :: db where
  "two_users = empty_db\<lparr>users := [ann, bob]\<rparr>"








section \<open>Membership\<close>

lemma members_seq_ahead_fresh:
  "members_seq_ahead d \<Longrightarrow> room_members_id_seq d + 1 \<notin> set (map member_id (roomMembers d))"
  by (auto simp: members_seq_ahead_def list_all_iff)

lemma joinRoom_inserts:
  "members_seq_ahead d \<Longrightarrow> \<not> rejects e \<Longrightarrow>
   joinRoom e uid rid d =
     (Inr (), d\<lparr>room_members_id_seq := room_members_id_seq d + 1,
        roomMembers := roomMembers d @
          [\<lparr>member_id = room_members_id_seq d + 1, member_userId = uid,
            member_roomId = rid, joinedAt = Some (now e)\<rparr>]\<rparr>)"
  using members_seq_ahead_fresh[of d]
  by (simp add: joinRoom_def insert_roomMembers_onConflictDoNothing_def Let_def)

text \<open>With the sequence ahead of the ids, two joins of the same user to the same
  room add two rows.\<close>

lemma joinRoom_keeps_ahead:
  "members_seq_ahead d \<Longrightarrow> members_seq_ahead (snd (joinRoom e uid rid d))"
  by (auto simp: members_seq_ahead_def joinRoom_def insert_roomMembers_onConflictDoNothing_def
      Let_def list_all_iff)

lemma joinRoom_twice:
  assumes "members_seq_ahead d" and "\<not> rejects e1" and "\<not> rejects e2"
  shows "roomMembers (snd (joinRoom e2 uid rid (snd (joinRoom e1 uid rid d)))) =
           roomMembers d @
             [\<lparr>member_id = room_members_id_seq d + 1, member_userId = uid,
               member_roomId = rid, joinedAt = Some (now e1)\<rparr>,
              \<lparr>member_id = room_members_id_seq d + 2, member_userId = uid,
               member_roomId = rid, joinedAt = Some (now e2)\<rparr>]"
proof -
  let ?d1 = "snd (joinRoom e1 uid rid d)"
  from joinRoom_inserts[OF assms(1,2), of uid rid]
  have first: "roomMembers ?d1 = roomMembers d @
      [\<lparr>member_id = room_members_id_seq d + 1, member_userId = uid,
        member_roomId = rid, joinedAt = Some (now e1)\<rparr>]"
    and seq: "room_members_id_seq ?d1 = room_members_id_seq d + 1"
    by simp_all
  from joinRoom_inserts[OF joinRoom_keeps_ahead[OF assms(1), of e1 uid rid] assms(3), of uid rid]
  show ?thesis
    by (simp add: first seq)
qed

text \<open>
  C1. The claim: joining twice with the same (user, room) pair leaves exactly one
  membership row, the second call being a no-op. The code asks for it with
  \<open>onConflictDoNothing\<close>, but the table has no unique constraint on (userId, roomId),
  so no conflict arises: on the empty database two calls of \<open>joinRoom\<close> for user
  \<open>u1\<close> and room 1 leave two rows for the pair.
\<close>

theorem joinRoom_twice_two_rows:
  "roomMembers (snd (joinRoom \<lparr>now = 20, rejects = False\<rparr> ''u1'' 1
      (snd (joinRoom \<lparr>now = 10, rejects = False\<rparr> ''u1'' 1 empty_db)))) =
   [\<lparr>member_id = 1, member_userId = ''u1'', member_roomId = 1, joinedAt = Some 10\<rparr>,
    \<lparr>member_id = 2, member_userId = ''u1'', member_roomId = 1, joinedAt = Some 20\<rparr>]"
  by (simp add: joinRoom_def insert_roomMembers_onConflictDoNothing_def empty_db_def)

section \<open>Room creation\<close>

text \<open>
  C2, as the code has it. \<open>createRoom\<close> is two statements and no transaction. When
  the insert of the room fails, \<open>createRoom\<close> fails and neither table changes. When
  it succeeds the room row \<open>r\<close> is in the table from then on: if the membership
  insert is then rejected, \<open>createRoom\<close> fails and the memberships are as before
  (the room stays, without its creator); otherwise \<open>createRoom\<close> returns \<open>r\<close> and
  the membership row of (creator, room) has been added.
\<close>

theorem createRoom_two_statements:
  assumes "members_seq_ahead d"
  shows "(rooms_insert_fails e1 d \<longrightarrow>
            (\<exists>err d'. createRoom e1 e2 room d = (Inl err, d') \<and> rooms d' = rooms d
                \<and> roomMembers d' = roomMembers d))
       \<and> (\<not> rooms_insert_fails e1 d \<longrightarrow>
            (\<exists>r. r = \<lparr>room_id = rooms_id_seq d + 1, room_name = ins_name room,
                     description = ins_description room, createdBy = ins_createdBy room,
                     room_createdAt = Some (now e1), room_updatedAt = Some (now e1)\<rparr>
              \<and> rooms (snd (createRoom e1 e2 room d)) = rooms d @ [r]
              \<and> (if rejects e2
                  then fst (createRoom e1 e2 room d) = Inl Rejected
                     \<and> roomMembers (snd (createRoom e1 e2 room d)) = roomMembers d
                  else fst (createRoom e1 e2 room d) = Inr r
                     \<and> roomMembers (snd (createRoom e1 e2 room d)) = roomMembers d @
                          [\<lparr>member_id = room_members_id_seq d + 1,
                            member_userId = ins_createdBy room, member_roomId = room_id r,
                            joinedAt = Some (now e2)\<rparr>])))"
proof (cases "rooms_insert_fails e1 d")
  case True
  then show ?thesis
    by (auto simp: createRoom_def insert_rooms_returning_def rooms_insert_fails_def Let_def)
next
  case False
  let ?r = "\<lparr>room_id = rooms_id_seq d + 1, room_name = ins_name room,
             description = ins_description room, createdBy = ins_createdBy room,
             room_createdAt = Some (now e1), room_updatedAt = Some (now e1)\<rparr>"
  let ?d1 = "d\<lparr>rooms_id_seq := rooms_id_seq d + 1, rooms := rooms d @ [?r]\<rparr>"
  from False have ins: "insert_rooms_returning e1 room d = (Inr ?r, ?d1)"
    by (simp add: insert_rooms_returning_def rooms_insert_fails_def Let_def)
  from assms have ahead: "members_seq_ahead ?d1"
    by (simp add: members_seq_ahead_def)
  show ?thesis
  proof (cases "rejects e2")
    case True
    with False ins show ?thesis
      by (simp add: createRoom_def joinRoom_def)
  next
    case accepted: False
    from joinRoom_inserts[OF ahead accepted, of "ins_createdBy room" "room_id ?r"]
      False ins accepted
    show ?thesis
      by (simp add: createRoom_def)
  qed
qed

text \<open>The theorem at work on the empty database: once with both statements carried
  out, once with the insert of the room rejected.\<close>

theorem createRoom_two_statements_witness:
  "members_seq_ahead empty_db
   \<and> \<not> rooms_insert_fails \<lparr>now = 10, rejects = False\<rparr> empty_db
   \<and> fst (createRoom \<lparr>now = 10, rejects = False\<rparr> \<lparr>now = 11, rejects = False\<rparr>
        \<lparr>ins_name = ''general'', ins_description = None, ins_createdBy = ''u1''\<rparr> empty_db)
      = Inr \<lparr>room_id = 1, room_name = ''general'', description = None, createdBy = ''u1'',
             room_createdAt = Some 10, room_updatedAt = Some 10\<rparr>
   \<and> roomMembers (snd (createRoom \<lparr>now = 10, rejects = False\<rparr> \<lparr>now = 11, rejects = False\<rparr>
        \<lparr>ins_name = ''general'', ins_description = None, ins_createdBy = ''u1''\<rparr> empty_db))
      = [\<lparr>member_id = 1, member_userId = ''u1'', member_roomId = 1, joinedAt = Some 11\<rparr>]
   \<and> rooms_insert_fails \<lparr>now = 10, rejects = True\<rparr> empty_db
   \<and> (\<exists>err d'. createRoom \<lparr>now = 10, rejects = True\<rparr> \<lparr>now = 11, rejects = False\<rparr>
        \<lparr>ins_name = ''general'', ins_description = None, ins_createdBy = ''u1''\<rparr> empty_db
          = (Inl err, d') \<and> rooms d' = [] \<and> roomMembers d' = [])"
proof -
  have ahead: "members_seq_ahead empty_db"
    by (simp add: members_seq_ahead_def empty_db_def)
  have ok: "\<not> rooms_insert_fails \<lparr>now = 10, rejects = False\<rparr> empty_db"
    by (simp add: rooms_insert_fails_def empty_db_def)
  have bad: "rooms_insert_fails \<lparr>now = 10, rejects = True\<rparr> empty_db"
    by (simp add: rooms_insert_fails_def)
  have e: "rooms empty_db = []" "roomMembers empty_db = []" "rooms_id_seq empty_db = 0"
    "room_members_id_seq empty_db = 0"
    by (simp_all add: empty_db_def)
  from createRoom_two_statements[OF ahead, of "\<lparr>now = 10, rejects = False\<rparr>"
      "\<lparr>now = 11, rejects = False\<rparr>"
      "\<lparr>ins_name = ''general'', ins_description = None, ins_createdBy = ''u1''\<rparr>"]
    createRoom_two_statements[OF ahead, of "\<lparr>now = 10, rejects = True\<rparr>"
      "\<lparr>now = 11, rejects = False\<rparr>"
      "\<lparr>ins_name = ''general'', ins_description = None, ins_createdBy = ''u1''\<rparr>"]
    ahead ok bad
  show ?thesis
    by (simp add: e)
qed

text \<open>
  C2, as the claim has it, fails: with the second statement rejected, \<open>createRoom\<close>
  fails and yet room 1 is in the table, with no membership row at all.
\<close>

theorem createRoom_orphan_counterexample:
  "fst (createRoom \<lparr>now = 10, rejects = False\<rparr> \<lparr>now = 11, rejects = True\<rparr>
        \<lparr>ins_name = ''general'', ins_description = None, ins_createdBy = ''u1''\<rparr> empty_db)
     = Inl Rejected
   \<and> rooms (snd (createRoom \<lparr>now = 10, rejects = False\<rparr> \<lparr>now = 11, rejects = True\<rparr>
        \<lparr>ins_name = ''general'', ins_description = None, ins_createdBy = ''u1''\<rparr> empty_db))
     = [\<lparr>room_id = 1, room_name = ''general'', description = None, createdBy = ''u1'',
         room_createdAt = Some 10, room_updatedAt = Some 10\<rparr>]
   \<and> roomMembers (snd (createRoom \<lparr>now = 10, rejects = False\<rparr> \<lparr>now = 11, rejects = True\<rparr>
        \<lparr>ins_name = ''general'', ins_description = None, ins_createdBy = ''u1''\<rparr> empty_db))
     = []"
  by (simp add: createRoom_def insert_rooms_returning_def joinRoom_def empty_db_def Let_def)

section \<open>Keys and sequences along the way\<close>

text \<open>
  The empty database has the keys and the references that the theorems ask for,
  and the writes of the storage layer keep them: the sequence of \<open>room_members.id\<close>
  stays ahead, \<open>rooms.id\<close> stays a key, and every author keeps a row as long as
  messages are created for users that have one.
\<close>

lemma empty_db_promises:
  "users_pk empty_db" "rooms_pk empty_db" "authors_exist empty_db" "members_seq_ahead empty_db"
  by (simp_all add: users_pk_def rooms_pk_def authors_exist_def members_seq_ahead_def empty_db_def)

lemma createRoom_cases:
  obtains "snd (createRoom e1 e2 room d) = snd (insert_rooms_returning e1 room d)"
  | i where "snd (createRoom e1 e2 room d)
      = snd (joinRoom e2 (ins_createdBy room) i (snd (insert_rooms_returning e1 room d)))"
proof (cases "insert_rooms_returning e1 room d")
  case (Pair a d1)
  show ?thesis
  proof (cases a)
    case (Inl err)
    with Pair have "snd (createRoom e1 e2 room d) = d1"
      by (simp add: createRoom_def)
    with Pair that(1) show ?thesis by simp
  next
    case (Inr r)
    with Pair have "snd (createRoom e1 e2 room d)
        = snd (joinRoom e2 (ins_createdBy room) (room_id r) d1)"
      by (simp add: createRoom_def split: prod.splits sum.splits)
    with Pair that(2) show ?thesis by simp
  qed
qed

lemma perform_members_seq_ahead:
  "members_seq_ahead d \<Longrightarrow> members_seq_ahead (perform w d)"
proof (cases w)
  case (CreateRoom e1 e2 room)
  assume a: "members_seq_ahead d"
  have b: "members_seq_ahead (snd (insert_rooms_returning e1 room d))"
    using a by (simp add: members_seq_ahead_def insert_rooms_returning_def Let_def)
  show ?thesis
    unfolding CreateRoom perform.simps
    by (rule createRoom_cases[of e1 e2 room d]) (simp_all add: b joinRoom_keeps_ahead)
next
  case (JoinRoom e uid rid)
  assume "members_seq_ahead d"
  then show ?thesis
    unfolding JoinRoom by (simp add: joinRoom_keeps_ahead)
next
  case (LeaveRoom e uid rid)
  assume "members_seq_ahead d"
  then show ?thesis
    unfolding LeaveRoom by (auto simp: members_seq_ahead_def leaveRoom_def list_all_iff)
next
  case (CreateMessage e v)
  assume "members_seq_ahead d"
  then show ?thesis
    unfolding CreateMessage
    by (auto simp: members_seq_ahead_def createMessage_def insert_messages_returning_def
        Let_def split: option.splits)
next
  case (WriteUsers us)
  assume "members_seq_ahead d"
  then show ?thesis
    unfolding WriteUsers by (simp add: members_seq_ahead_def)
qed

lemma insert_rooms_keeps_pk:
  "rooms_pk d \<Longrightarrow> rooms_pk (snd (insert_rooms_returning e room d))"
  by (auto simp: rooms_pk_def insert_rooms_returning_def Let_def)

lemma joinRoom_rooms: "rooms (snd (joinRoom e uid rid d)) = rooms d"
  by (simp add: joinRoom_def insert_roomMembers_onConflictDoNothing_def Let_def)

lemma perform_rooms_pk:
  "rooms_pk d \<Longrightarrow> rooms_pk (perform w d)"
proof (cases w)
  case (CreateRoom e1 e2 room)
  assume a: "rooms_pk d"
  note k = insert_rooms_keeps_pk[OF a, of e1 room, unfolded rooms_pk_def]
  show ?thesis
    unfolding CreateRoom perform.simps
    by (rule createRoom_cases[of e1 e2 room d]) (simp_all add: k rooms_pk_def joinRoom_rooms)
qed (auto simp: rooms_pk_def joinRoom_def leaveRoom_def createMessage_def
    insert_messages_returning_def insert_roomMembers_onConflictDoNothing_def Let_def
    split: option.splits)

lemma createMessage_authors_exist:
  assumes "authors_exist d" and "ins_userId v \<in> set (map user_id (users d))"
  shows "authors_exist (snd (createMessage e v d))"
  using assms
  by (auto simp: authors_exist_def createMessage_def insert_messages_returning_def Let_def
      list_all_iff split: option.splits)

section \<open>The order of a query's rows\<close>











lemma with_user_simps [simp]:
  "message_id (with_user p) = message_id (fst p)"
  "content (with_user p) = content (fst p)"
  "userId (with_user p) = userId (fst p)"
  "roomId (with_user p) = roomId (fst p)"
  "createdAt (with_user p) = createdAt (fst p)"
  "user (with_user p) = snd p"
  "Message.truncate (with_user p) = fst p"
  by (simp_all add: with_user_def Message.defs MessageWithUser.defs)


section \<open>The join with the authors\<close>









section \<open>Polling with a cursor\<close>



section \<open>The order of the messages returned\<close>




section \<open>The first page\<close>

text \<open>
  C5. With \<open>since\<close> left out, \<open>getLatestMessages(roomId)\<close> returns what
  \<open>getMessages(roomId)\<close> returns with its defaults, limit 50 and offset 0: for every
  room and every database, whatever sort the database performs (the same rows being
  sorted the same way for both).
\<close>

theorem getLatestMessages_without_since:
  "getMessages ord d rid 50 0 = Inr (getLatestMessages ord d rid None)"
  by (simp add: getMessages_def getLatestMessages_def)

section \<open>Messages stay as they were written\<close>









section \<open>Room ids in the routes\<close>

lemma set_tl_subset: "set (tl xs) \<subseteq> set xs"
  by (cases xs) auto

lemma zero_is_digit: "radix_digit 10 CHR ''0''"
  by (simp add: radix_digit_def digit_of_def)

lemma no_zero_no_hex:
  assumes "CHR ''0'' \<notin> set xs"
  shows "take 2 xs \<noteq> ''0x''" and "take 2 xs \<noteq> ''0X''"
proof -
  have "CHR ''0'' \<notin> set (take 2 xs)"
    using assms by (meson in_set_takeD)
  then show "take 2 xs \<noteq> ''0x''" and "take 2 xs \<noteq> ''0X''"
    by auto
qed

lemma parseInt_no_digit:
  assumes "\<forall>c \<in> set s. \<not> radix_digit 10 c"
  shows "parseInt s = NaN"
proof -
  define S where "S = dropWhile StrWhiteSpaceChar s"
  define S1 where "S1 = (if S \<noteq> [] \<and> (hd S = CHR ''+'' \<or> hd S = CHR ''-'') then tl S else S)"
  have "set S \<subseteq> set s"
    unfolding S_def by (auto dest: set_dropWhileD)
  moreover have "set S1 \<subseteq> set S"
    unfolding S1_def using set_tl_subset[of S] by simp
  ultimately have none: "\<forall>c \<in> set S1. \<not> radix_digit 10 c"
    using assms by blast
  then have "CHR ''0'' \<notin> set S1"
    using zero_is_digit by blast
  note nohex = no_zero_no_hex[OF this]
  have "takeWhile (radix_digit 10) S1 = []"
    using none by (cases S1) auto
  with nohex show ?thesis
    unfolding parseInt_def Let_def S_def[symmetric] S1_def[symmetric] by simp
qed

text \<open>A decimal numeral is never read as \<open>NaN\<close>.\<close>

lemma decimal_digit_range:
  "radix_digit 10 c \<longleftrightarrow> 48 \<le> (of_char c :: nat) \<and> (of_char c :: nat) \<le> 57"
  by (auto simp: radix_digit_def digit_of_def Let_def split: option.splits if_splits)

lemma digit_not_space: "radix_digit 10 c \<Longrightarrow> \<not> StrWhiteSpaceChar c"
  by (auto simp: decimal_digit_range StrWhiteSpaceChar_def)

lemma sign_not_space: "\<not> StrWhiteSpaceChar CHR ''+''" "\<not> StrWhiteSpaceChar CHR ''-''"
  by (simp_all add: StrWhiteSpaceChar_def)

lemma x_not_digit: "\<not> radix_digit 10 CHR ''x''" "\<not> radix_digit 10 CHR ''X''"
  "\<not> radix_digit 10 CHR ''+''" "\<not> radix_digit 10 CHR ''-''"
  by (simp_all add: decimal_digit_range)

lemma digits_no_hex:
  assumes "list_all (radix_digit 10) t"
  shows "take 2 t \<noteq> ''0x''" and "take 2 t \<noteq> ''0X''"
proof -
  have "CHR ''x'' \<notin> set t" "CHR ''X'' \<notin> set t"
    using assms x_not_digit by (auto simp: list_all_iff)
  then have "CHR ''x'' \<notin> set (take 2 t)" "CHR ''X'' \<notin> set (take 2 t)"
    by (meson in_set_takeD)+
  then show "take 2 t \<noteq> ''0x''" and "take 2 t \<noteq> ''0X''"
    by auto
qed

lemma numeric_string_parses:
  assumes "numeric_string s"
  shows "parseInt s \<noteq> NaN"
proof -
  define t where "t = (if s \<noteq> [] \<and> (hd s = CHR ''+'' \<or> hd s = CHR ''-'') then tl s else s)"
  from assms have t: "t \<noteq> []" "list_all (radix_digit 10) t"
    by (simp_all add: numeric_string_def t_def Let_def)
  then have s: "s \<noteq> []"
    by (auto simp: t_def)
  have "\<not> StrWhiteSpaceChar (hd s)"
  proof (cases "hd s = CHR ''+'' \<or> hd s = CHR ''-''")
    case True
    then show ?thesis using sign_not_space by auto
  next
    case False
    with t s have "radix_digit 10 (hd s)"
      by (cases s) (auto simp: t_def)
    then show ?thesis by (rule digit_not_space)
  qed
  with s have S: "dropWhile StrWhiteSpaceChar s = s"
    by (cases s) auto
  from t have Z: "takeWhile (radix_digit 10) t \<noteq> []"
    by (cases t) simp_all
  from digits_no_hex[OF t(2)] Z show ?thesis
    unfolding parseInt_def Let_def S t_def[symmetric] by simp
qed

text \<open>
  C7, as the code has it. A \<open>roomId\<close> from which \<open>parseInt\<close> reads no integer is
  answered with 400 and \<open>Invalid room ID\<close> by each of the five handlers, without a
  call on the storage layer and with the database as it was. That is so for every
  \<open>roomId\<close> without a decimal digit, and it is never so for a decimal numeral.
\<close>

theorem roomId_without_integer_rejected:
  "(parseInt param = NaN \<longrightarrow>
      join_route e uid param d = ((invalid_room_id, []), d)
    \<and> leave_route e uid param d = ((invalid_room_id, []), d)
    \<and> list_messages_route new_Date ord param q d = (invalid_room_id, [])
    \<and> send_message_route e ord uid param req_content d = ((invalid_room_id, []), d)
    \<and> members_route param d = (invalid_room_id, []))
   \<and> ((\<forall>c \<in> set param. \<not> radix_digit 10 c) \<longrightarrow> parseInt param = NaN)
   \<and> (numeric_string param \<longrightarrow> parseInt param \<noteq> NaN)"
  using parseInt_no_digit[of param] numeric_string_parses[of param]
  by (simp add: join_route_def leave_route_def list_messages_route_def send_message_route_def
      members_route_def Let_def)

text \<open>The room id \<open>general\<close>, sent to the join and the members routes; and the
  numeral \<open>12\<close>.\<close>

theorem roomId_without_integer_rejected_witness:
  "parseInt ''general'' = NaN
   \<and> list_all (\<lambda>c. \<not> radix_digit 10 c) ''general''
   \<and> numeric_string ''12'' \<and> parseInt ''12'' \<noteq> NaN
   \<and> join_route \<lparr>now = 1, rejects = False\<rparr> ''ann'' ''general'' two_users
       = ((\<lparr>status = 400, body = Msg ''Invalid room ID''\<rparr>, []), two_users)
   \<and> members_route ''general'' two_users = (\<lparr>status = 400, body = Msg ''Invalid room ID''\<rparr>, [])"
proof -
  have nan: "parseInt ''general'' = NaN" by code_simp
  have nodigit: "list_all (\<lambda>c. \<not> radix_digit 10 c) ''general''" by code_simp
  have num: "numeric_string ''12''" by code_simp
  from roomId_without_integer_rejected[of "''general''" "\<lparr>now = 1, rejects = False\<rparr>" "''ann''"
      two_users]
    roomId_without_integer_rejected[of "''12''"] nan nodigit num
  show ?thesis by (simp add: invalid_room_id_def)
qed

text \<open>
  C7, as the claim has it, fails: \<open>12abc\<close> is not a number, but \<open>parseInt\<close> reads
  12 from it, and the leave route calls \<open>leaveRoom\<close> for room 12 and answers 200.
\<close>

theorem roomId_with_suffix_accepted_counterexample:
  "\<not> numeric_string ''12abc''
   \<and> leave_route \<lparr>now = 1, rejects = False\<rparr> ''ann'' ''12abc'' two_users
       = ((\<lparr>status = 200, body = Msg ''Left room successfully''\<rparr>,
           [Call_leaveRoom ''ann'' 12]), two_users)"
proof -
  have "\<not> numeric_string ''12abc''" by code_simp
  moreover have "parseInt ''12abc'' = Num 12" by code_simp
  ultimately show ?thesis
    by (simp add: leave_route_def leaveRoom_def two_users_def empty_db_def)
qed

section \<open>Limit and offset\<close>





section \<open>The answer to a message sent\<close>








section \<open>The rooms with their details\<close>








end
